theory Spec2Isabelle
  imports Main
begin

section \<open>JavaScript values\<close>

text \<open>
  The values the Text component of \<^verbatim>\<open>src/text.js\<close> stores and passes on. Numbers are
  modelled as integers; fractions, NaN and the infinities are outside the model. Objects
  are plain objects: their own enumerable properties in insertion order, as an
  association list (the prototype chain is not modelled). Function values occur only as
  the argument of \<^verbatim>\<open>.text\<close>, see \<open>text_arg\<close> and \<open>call_on\<close> below.
\<close>

datatype jsval =
    JUndefined
  | JNull
  | JBool bool
  | JNum int
  | JStr string
  | JObj "(string \<times> jsval) list"

text \<open>The \<^verbatim>\<open>typeof\<close> operator.\<close>

fun typeof :: "jsval \<Rightarrow> string" where
  "typeof JUndefined = ''undefined''"
| "typeof JNull = ''object''"
| "typeof (JBool b) = ''boolean''"
| "typeof (JNum n) = ''number''"
| "typeof (JStr s) = ''string''"
| "typeof (JObj ps) = ''object''"

text \<open>ToBoolean, which decides \<^verbatim>\<open>a || b\<close>.\<close>

fun truthy :: "jsval \<Rightarrow> bool" where
  "truthy JUndefined = False"
| "truthy JNull = False"
| "truthy (JBool b) = b"
| "truthy (JNum n) = (n \<noteq> 0)"
| "truthy (JStr s) = (s \<noteq> [])"
| "truthy (JObj ps) = True"

definition js_or :: "jsval \<Rightarrow> jsval \<Rightarrow> jsval" where
  "js_or a b = (if truthy a then a else b)"

text \<open>ToString, which \<^verbatim>\<open>+\<close> applies to an operand when the other one is a string, and
  which turns a property key into a string. Integers print in decimal.\<close>

definition digit_char :: "nat \<Rightarrow> char" where
  "digit_char d = (''0123456789'' ! d)"

fun nat_to_string :: "nat \<Rightarrow> string" where
  "nat_to_string n =
     (if n < 10 then [digit_char n] else nat_to_string (n div 10) @ [digit_char (n mod 10)])"

declare nat_to_string.simps [simp del]

definition num_to_string :: "int \<Rightarrow> string" where
  "num_to_string i = (if i < 0 then ''-'' @ nat_to_string (nat (- i)) else nat_to_string (nat i))"

fun to_string :: "jsval \<Rightarrow> string" where
  "to_string JUndefined = ''undefined''"
| "to_string JNull = ''null''"
| "to_string (JBool b) = (if b then ''true'' else ''false'')"
| "to_string (JNum n) = num_to_string n"
| "to_string (JStr s) = s"
| "to_string (JObj ps) = ''[object Object]''"

subsection \<open>Objects\<close>

text \<open>\<^verbatim>\<open>o[k]\<close> reads \<^verbatim>\<open>undefined\<close> for a missing property; \<^verbatim>\<open>o[k] = v\<close> overwrites the
  property in place or appends it; \<^verbatim>\<open>for (k in o)\<close> visits every property name once.\<close>

definition obj_get :: "(string \<times> jsval) list \<Rightarrow> string \<Rightarrow> jsval" where
  "obj_get ps k = (case map_of ps k of None \<Rightarrow> JUndefined | Some v \<Rightarrow> v)"

fun obj_put :: "string \<Rightarrow> jsval \<Rightarrow> (string \<times> jsval) list \<Rightarrow> (string \<times> jsval) list" where
  "obj_put k v [] = [(k, v)]"
| "obj_put k v (p # ps) = (if fst p = k then (k, v) # ps else p # obj_put k v ps)"

fun obj_keys :: "(string \<times> jsval) list \<Rightarrow> string list" where
  "obj_keys [] = []"
| "obj_keys (p # ps) = fst p # filter (\<lambda>k. k \<noteq> fst p) (obj_keys ps)"

text \<open>The properties a \<^verbatim>\<open>for ... in\<close> loop enumerates on a value whose \<^verbatim>\<open>typeof\<close> is
  \<^verbatim>\<open>"object"\<close>: none on \<^verbatim>\<open>null\<close>.\<close>

fun properties :: "jsval \<Rightarrow> (string \<times> jsval) list" where
  "properties (JObj ps) = ps"
| "properties v = []"

section \<open>The rendering surfaces\<close>

text \<open>
  Modelled from the spec: the DOM element of an entity (a browser object, not part of the
  repository), "a target element with mutable style and content". The model keeps the
  values assigned to it; what the browser makes of them is outside the component.
\<close>

record element =
  style :: "(string \<times> jsval) list"
  innerHTML :: jsval

text \<open>
  Modelled from the spec: the canvas drawing context (the browser's 2D context, not part of
  the repository), "a drawing context handle with a fill-text/measure-text/save/restore/
  translate capability set". The drawing state is the fill style, the font and the current
  translation; \<open>save\<close> pushes it, \<open>restore\<close> pops it (and does nothing on an empty stack);
  \<open>fillText\<close> paints at the translated position. \<open>calls\<close> logs the operations the context
  received, in order.
\<close>

datatype ctx_call =
    Save
  | Set_fillStyle jsval
  | Set_font string
  | Translate int int
  | FillText jsval int int
  | MeasureText jsval
  | Restore

record dstate =
  fillStyle :: jsval
  font :: string
  origin :: "int \<times> int"

record painting =
  p_text :: jsval
  p_at :: "int \<times> int"
  p_state :: dstate

record canvas =
  cur :: dstate
  stack :: "dstate list"
  painted :: "painting list"
  calls :: "ctx_call list"

definition save :: "canvas \<Rightarrow> canvas" where
  "save c = c\<lparr>stack := cur c # stack c, calls := calls c @ [Save]\<rparr>"

definition restore :: "canvas \<Rightarrow> canvas" where
  "restore c =
     (case stack c of
        [] \<Rightarrow> c\<lparr>calls := calls c @ [Restore]\<rparr>
      | d # ds \<Rightarrow> c\<lparr>cur := d, stack := ds, calls := calls c @ [Restore]\<rparr>)"

definition set_fillStyle :: "jsval \<Rightarrow> canvas \<Rightarrow> canvas" where
  "set_fillStyle v c = c\<lparr>cur := (cur c)\<lparr>fillStyle := v\<rparr>, calls := calls c @ [Set_fillStyle v]\<rparr>"

definition set_font :: "string \<Rightarrow> canvas \<Rightarrow> canvas" where
  "set_font s c = c\<lparr>cur := (cur c)\<lparr>font := s\<rparr>, calls := calls c @ [Set_font s]\<rparr>"

definition translate :: "int \<Rightarrow> int \<Rightarrow> canvas \<Rightarrow> canvas" where
  "translate dx dy c =
     c\<lparr>cur := (cur c)\<lparr>origin := (fst (origin (cur c)) + dx, snd (origin (cur c)) + dy)\<rparr>,
       calls := calls c @ [Translate dx dy]\<rparr>"

definition fillText :: "jsval \<Rightarrow> int \<Rightarrow> int \<Rightarrow> canvas \<Rightarrow> canvas" where
  "fillText t px py c =
     c\<lparr>painted := painted c @
          [\<lparr>p_text = t, p_at = (fst (origin (cur c)) + px, snd (origin (cur c)) + py),
            p_state = cur c\<rparr>],
       calls := calls c @ [FillText t px py]\<rparr>"

text \<open>\<^verbatim>\<open>measureText(t).width\<close>: the surface's own measurement of \<open>t\<close> in the current drawing
  state, taken as the parameter \<open>msr\<close>.\<close>

definition measureText :: "(dstate \<Rightarrow> jsval \<Rightarrow> int) \<Rightarrow> jsval \<Rightarrow> canvas \<Rightarrow> int \<times> canvas" where
  "measureText msr t c = (msr (cur c) t, c\<lparr>calls := calls c @ [MeasureText t]\<rparr>)"

section \<open>The entity\<close>

text \<open>
  The entity a Text component is attached to. \<open>components\<close>, \<open>bound\<close> and \<open>triggered\<close>
  stand for the framework's bookkeeping: the components the entity has, the
  notifications it has handlers for, and the notifications it has emitted, oldest first.
  \<open>ent_x\<close>, \<open>ent_y\<close>, \<open>ent_h\<close> are the \<^verbatim>\<open>x\<close>, \<^verbatim>\<open>y\<close>, \<^verbatim>\<open>h\<close> of the 2D component; a field
  \<open>u_name\<close> is the source's \<^verbatim>\<open>_name\<close>. \<^verbatim>\<open>_textColor\<close> and \<^verbatim>\<open>_strength\<close> are
  \<^verbatim>\<open>undefined\<close> until \<^verbatim>\<open>textColor\<close> assigns them. \<open>invoked\<close> is the log of the function
  calls made with the entity as receiver: one entry, the value returned, for each call,
  oldest first.
\<close>

record entity =
  components :: "string list"
  bound :: "string list"
  triggered :: "string list"
  invoked :: "jsval list"
  ent_x :: int
  ent_y :: int
  ent_h :: int
  u_w :: int
  u_element :: "element option"
  u_text :: jsval
  u_textFont :: "(string \<times> jsval) list"
  u_textColor :: jsval
  u_strength :: jsval

datatype error = TypeError

text \<open>
  Modelled from the spec: the framework's \<^verbatim>\<open>has\<close>, \<^verbatim>\<open>requires\<close>, \<^verbatim>\<open>bind\<close>, \<^verbatim>\<open>trigger\<close> and
  the DOM component's \<^verbatim>\<open>css\<close> (none of them under src/). \<open>has\<close> is the "capability query on
  the entity"; \<open>trigger\<close> emits a notification "for any interested observer", recorded in
  \<open>triggered\<close>; \<open>css\<close> "applies a fixed set of ... style properties" to the entity's element and
  fails, as any property access on \<^verbatim>\<open>undefined\<close> does, when there is none.
\<close>

definition has :: "string \<Rightarrow> entity \<Rightarrow> bool" where
  "has c e = (c \<in> set (components e))"

definition requires :: "string \<Rightarrow> entity \<Rightarrow> entity" where
  "requires c e = (if has c e then e else e\<lparr>components := components e @ [c]\<rparr>)"

definition bind :: "string \<Rightarrow> entity \<Rightarrow> entity" where
  "bind ev e = e\<lparr>bound := bound e @ [ev]\<rparr>"

definition trigger :: "string \<Rightarrow> entity \<Rightarrow> entity" where
  "trigger ev e = e\<lparr>triggered := triggered e @ [ev]\<rparr>"

definition css :: "(string \<times> jsval) list \<Rightarrow> entity \<Rightarrow> error + entity" where
  "css obj e =
     (case u_element e of
        None \<Rightarrow> Inl TypeError
      | Some el \<Rightarrow>
          Inr (e\<lparr>u_element :=
                 Some (el\<lparr>style := fold (\<lambda>k st. obj_put k (obj_get obj k) st) (obj_keys obj) (style el)\<rparr>)\<rparr>))"

section \<open>The Text component\<close>

definition defaultSize :: jsval where
  "defaultSize = JStr ''10px''"

definition defaultFamily :: jsval where
  "defaultFamily = JStr ''sans-serif''"

text \<open>\<^verbatim>\<open>init\<close>, lines 28 to 65: the handler it binds to "Draw" is \<open>draw\<close> below.\<close>

definition init :: "entity \<Rightarrow> entity" where
  "init e =
     bind ''Draw''
       ((requires ''2D'' e)\<lparr>u_textFont :=
          [(''type'', JStr ''''), (''weight'', JStr ''''), (''size'', JStr ''''), (''family'', JStr '''')]\<rparr>)"

text \<open>Attaching the component copies its properties (\<^verbatim>\<open>_text: ""\<close>) to the entity and runs
  \<^verbatim>\<open>init\<close>.\<close>

definition attach_Text :: "entity \<Rightarrow> entity" where
  "attach_Text e = init (e\<lparr>u_text := JStr ''''\<rparr>)"

subsection \<open>The Draw handler\<close>

text \<open>Line 38, the local \<^verbatim>\<open>font\<close>. Every \<^verbatim>\<open>+\<close> of the expression has a string operand, so
  it concatenates the operands' strings.\<close>

definition compose_font :: "entity \<Rightarrow> string" where
  "compose_font e =
     to_string (obj_get (u_textFont e) ''type'') @ '' '' @
     to_string (obj_get (u_textFont e) ''weight'') @ '' '' @
     to_string (js_or (obj_get (u_textFont e) ''size'') defaultSize) @ '' '' @
     to_string (js_or (obj_get (u_textFont e) ''family'') defaultFamily)"

text \<open>The notification: \<^verbatim>\<open>e.type\<close> and \<^verbatim>\<open>e.ctx\<close>.\<close>

record draw_event =
  ev_type :: string
  ev_ctx :: "canvas option"

text \<open>Lines 37 to 64. The handler returns the entity and the notification, whose context
  it has drawn on. Reading a property of a missing element or context is a TypeError.\<close>

definition draw :: "(dstate \<Rightarrow> jsval \<Rightarrow> int) \<Rightarrow> draw_event \<Rightarrow> entity \<Rightarrow> error + entity \<times> draw_event" where
  "draw msr ev e =
     (let fnt = compose_font e in
      if ev_type ev = ''DOM'' then
        (case u_element e of
           None \<Rightarrow> Inl TypeError
         | Some el \<Rightarrow>
             (let st1 = obj_put ''color'' (u_textColor e) (style el);
                  st2 = obj_put ''font'' (JStr fnt) st1
              in Inr (e\<lparr>u_element := Some (el\<lparr>style := st2, innerHTML := u_text e\<rparr>)\<rparr>, ev)))
      else if ev_type ev = ''canvas'' then
        (case ev_ctx ev of
           None \<Rightarrow> Inl TypeError
         | Some c0 \<Rightarrow>
             (let c1 = save c0;
                  c2 = set_fillStyle (js_or (u_textColor e) (JStr ''rgb(0,0,0)'')) c1;
                  c3 = set_font fnt c2;
                  c4 = translate (ent_x e) (ent_y e + ent_h e) c3;
                  c5 = fillText (u_text e) 0 0 c4;
                  (width, c6) = measureText msr (u_text e) c5;
                  e' = e\<lparr>u_w := width\<rparr>;
                  c7 = restore c6
              in Inr (e', ev\<lparr>ev_ctx := Some c7\<rparr>)))
      else Inr (e, ev))"

subsection \<open>The methods\<close>

text \<open>
  A method returns \<^verbatim>\<open>this\<close> (\<open>This\<close>) or a value. The argument of \<^verbatim>\<open>.text\<close> is a value or a
  function; a function is given by the value it computes from its receiver (a text
  generator reads the entity, it does not change it).
\<close>

datatype result = This | Returned jsval

datatype text_arg = Value jsval | Generator "entity \<Rightarrow> jsval"

text \<open>\<^verbatim>\<open>f.call(this)\<close>: one invocation of \<open>f\<close> with the entity as receiver. It yields the value
  \<open>f\<close> computes from the entity as it is at the call, and the invocation is entered in the
  entity's log. Every invocation of a function goes through \<open>call_on\<close>, so a method that
  called \<open>f\<close> twice would leave two entries.\<close>

definition call_on :: "(entity \<Rightarrow> jsval) \<Rightarrow> entity \<Rightarrow> jsval \<times> entity" where
  "call_on f e = (f e, e\<lparr>invoked := invoked e @ [f e]\<rparr>)"

text \<open>\<^verbatim>\<open>text\<close>, lines 91 to 99. A call without argument passes \<^verbatim>\<open>undefined\<close>.\<close>

fun text_fn :: "text_arg \<Rightarrow> entity \<Rightarrow> result \<times> entity" where
  "text_fn (Value v) e =
     (if \<not> (typeof v \<noteq> ''undefined'' \<and> v \<noteq> JNull) then (Returned (u_text e), e)
      else (This, trigger ''Change'' (e\<lparr>u_text := v\<rparr>)))"
| "text_fn (Generator f) e =
     (case call_on f e of (r, e1) \<Rightarrow> (This, trigger ''Change'' (e1\<lparr>u_text := r\<rparr>)))"

text \<open>\<^verbatim>\<open>textColor\<close>, lines 120 to 125. \<^verbatim>\<open>Crafty.toRGB\<close> is not under src/: it is the
  parameter \<open>toRGB\<close>.\<close>

definition textColor :: "(jsval \<Rightarrow> jsval \<Rightarrow> jsval) \<Rightarrow> jsval \<Rightarrow> jsval \<Rightarrow> entity \<Rightarrow> result \<times> entity" where
  "textColor toRGB color strength e =
     (let e1 = e\<lparr>u_strength := strength\<rparr>;
          e2 = e1\<lparr>u_textColor := toRGB color (u_strength e1)\<rparr>
      in (This, trigger ''Change'' e2))"

text \<open>\<^verbatim>\<open>textFont\<close>, lines 149 to 167, on its \<^verbatim>\<open>arguments\<close>: \<^verbatim>\<open>key\<close> and \<^verbatim>\<open>value\<close> are the first
  two, \<^verbatim>\<open>undefined\<close> when absent.\<close>

definition arg :: "jsval list \<Rightarrow> nat \<Rightarrow> jsval" where
  "arg arguments i = (if i < length arguments then arguments ! i else JUndefined)"

definition merge_font :: "(string \<times> jsval) list \<Rightarrow> (string \<times> jsval) list \<Rightarrow> (string \<times> jsval) list" where
  "merge_font obj tf = fold (\<lambda>propertyKey t. obj_put propertyKey (obj_get obj propertyKey) t) (obj_keys obj) tf"

definition textFont :: "jsval list \<Rightarrow> entity \<Rightarrow> result \<times> entity" where
  "textFont arguments e =
     (let key = arg arguments 0; val = arg arguments 1 in
      if length arguments = 1 then
        if typeof key = ''string'' then (Returned (obj_get (u_textFont e) (to_string key)), e)
        else
          (This, trigger ''Change''
             (if typeof key = ''object''
              then e\<lparr>u_textFont := merge_font (properties key) (u_textFont e)\<rparr>
              else e))
      else (This, trigger ''Change'' (e\<lparr>u_textFont := obj_put (to_string key) val (u_textFont e)\<rparr>)))"

text \<open>\<^verbatim>\<open>unselectable\<close>, lines 183 to 197.\<close>

definition unselectable :: "entity \<Rightarrow> error + entity" where
  "unselectable e =
     (if has ''DOM'' e then
        (case css [(''-webkit-touch-callout'', JStr ''none''),
                   (''-webkit-user-select'', JStr ''none''),
                   (''-khtml-user-select'', JStr ''none''),
                   (''-moz-user-select'', JStr ''none''),
                   (''-ms-user-select'', JStr ''none''),
                   (''user-select'', JStr ''none'')] e of
           Inl err \<Rightarrow> Inl err
         | Inr e1 \<Rightarrow> Inr (trigger ''Change'' e1))
      else Inr e)"

section \<open>Using the component\<close>

text \<open>An entity as the framework creates it, before any component is attached.\<close>

definition fresh_entity :: entity where
  "fresh_entity =
     \<lparr>components = [], bound = [], triggered = [], invoked = [], ent_x = 0, ent_y = 0, ent_h = 0, u_w = 0,
      u_element = None, u_text = JUndefined, u_textFont = [], u_textColor = JUndefined,
      u_strength = JUndefined\<rparr>"

definition blank_canvas :: canvas where
  "blank_canvas =
     \<lparr>cur = \<lparr>fillStyle = JStr ''#000000'', font = ''10px sans-serif'', origin = (0, 0)\<rparr>,
      stack = [], painted = [], calls = []\<rparr>"

text \<open>What a client does with a Text entity: calls to the four methods and Draw
  notifications, one after the other. An error ends the run, as the exception would.\<close>

datatype call =
    Text text_arg
  | TextColor jsval jsval
  | TextFont "jsval list"
  | Unselectable
  | Draw draw_event

fun step :: "(jsval \<Rightarrow> jsval \<Rightarrow> jsval) \<Rightarrow> (dstate \<Rightarrow> jsval \<Rightarrow> int) \<Rightarrow> call \<Rightarrow> entity \<Rightarrow> error + entity" where
  "step toRGB msr (Text a) e = Inr (snd (text_fn a e))"
| "step toRGB msr (TextColor color strength) e = Inr (snd (textColor toRGB color strength e))"
| "step toRGB msr (TextFont arguments) e = Inr (snd (textFont arguments e))"
| "step toRGB msr Unselectable e = unselectable e"
| "step toRGB msr (Draw ev) e = (case draw msr ev e of Inl err \<Rightarrow> Inl err | Inr r \<Rightarrow> Inr (fst r))"

fun run :: "(jsval \<Rightarrow> jsval \<Rightarrow> jsval) \<Rightarrow> (dstate \<Rightarrow> jsval \<Rightarrow> int) \<Rightarrow> call list \<Rightarrow> entity \<Rightarrow> error + entity" where
  "run toRGB msr [] e = Inr e"
| "run toRGB msr (c # cs) e =
     (case step toRGB msr c e of Inl err \<Rightarrow> Inl err | Inr e' \<Rightarrow> run toRGB msr cs e')"

text \<open>The font properties a call names for writing: those of the object in the map form of
  \<^verbatim>\<open>textFont\<close>, the key in the key + value form (the source treats a call with no or with more
  than two arguments the same way); no other call names any.\<close>

definition written_keys :: "jsval list \<Rightarrow> string list" where
  "written_keys arguments =
     (if length arguments = 1 then
        (if typeof (arg arguments 0) = ''object'' then obj_keys (properties (arg arguments 0)) else [])
      else [to_string (arg arguments 0)])"

fun sets_key :: "string \<Rightarrow> call \<Rightarrow> bool" where
  "sets_key k (TextFont arguments) = (k \<in> set (written_keys arguments))"
| "sets_key k c = False"

text \<open>The calls that pass a function: \<^verbatim>\<open>text(f)\<close>.\<close>

fun passes_function :: "call \<Rightarrow> bool" where
  "passes_function (Text (Generator f)) = True"
| "passes_function c = False"

text \<open>Concrete uses, for the examples below: a canvas Text entity at (10, 20) of height 5, a DOM
  Text entity with an empty element, the two kinds of Draw notification, a surface whose
  glyphs are all 6 wide, a colour utility, and the text generator of the source's own
  example (\<^verbatim>\<open>"My position is " + this._x\<close>).\<close>

definition text_entity :: entity where
  "text_entity = (attach_Text fresh_entity)\<lparr>ent_x := 10, ent_y := 20, ent_h := 5\<rparr>"

definition dom_entity :: entity where
  "dom_entity =
     attach_Text (fresh_entity\<lparr>components := [''DOM''],
                               u_element := Some \<lparr>style = [], innerHTML = JStr ''''\<rparr>\<rparr>)"

definition canvas_draw :: draw_event where
  "canvas_draw = \<lparr>ev_type = ''canvas'', ev_ctx = Some blank_canvas\<rparr>"

definition dom_draw :: draw_event where
  "dom_draw = \<lparr>ev_type = ''DOM'', ev_ctx = None\<rparr>"

definition fixed_width :: "dstate \<Rightarrow> jsval \<Rightarrow> int" where
  "fixed_width d t = 6 * int (length (to_string t))"

definition hex_toRGB :: "jsval \<Rightarrow> jsval \<Rightarrow> jsval" where
  "hex_toRGB color strength =
     (if color = JStr ''#FF0000'' \<and> strength = JUndefined then JStr ''rgb(255,0,0)'' else JStr ''rgb(0,0,0)'')"

definition position_text :: "entity \<Rightarrow> jsval" where
  "position_text en = JStr (''My position is '' @ to_string (JNum (ent_x en)))"

section \<open>Properties\<close>

lemmas example_defs = text_entity_def dom_entity_def canvas_draw_def dom_draw_def fixed_width_def
  hex_toRGB_def fresh_entity_def blank_canvas_def attach_Text_def init_def bind_def requires_def
  has_def trigger_def obj_get_def

subsection \<open>Objects\<close>

lemma map_of_obj_put: "map_of (obj_put k v ps) = (map_of ps)(k \<mapsto> v)"
  by (induction ps) (auto simp: fun_eq_iff)

lemma obj_get_put: "obj_get (obj_put k v ps) k' = (if k' = k then v else obj_get ps k')"
  by (simp add: obj_get_def map_of_obj_put)

lemma set_obj_keys: "set (obj_keys ps) = fst ` set ps"
  by (induction ps) auto

lemma obj_get_fold_put:
  "obj_get (fold (\<lambda>pk t. obj_put pk (obj_get obj pk) t) ks tf) k =
     (if k \<in> set ks then obj_get obj k else obj_get tf k)"
  by (induction ks arbitrary: tf) (auto simp: obj_get_put)

lemma obj_get_merge_font:
  "obj_get (merge_font obj tf) k = (case map_of obj k of None \<Rightarrow> obj_get tf k | Some v \<Rightarrow> v)"
proof (cases "map_of obj k")
  case None
  then have "k \<notin> fst ` set obj" by (simp add: map_of_eq_None_iff)
  with None show ?thesis by (simp add: merge_font_def obj_get_fold_put set_obj_keys)
next
  case (Some v)
  then have "k \<in> fst ` set obj" by (metis map_of_eq_None_iff option.distinct(1))
  then have "obj_get (merge_font obj tf) k = obj_get obj k"
    by (simp add: merge_font_def obj_get_fold_put set_obj_keys)
  with Some show ?thesis by (simp add: obj_get_def)
qed

subsection \<open>What each operation leaves alone\<close>

lemma draw_frame:
  assumes "draw msr ev e = Inr (e', ev')"
  shows "u_text e' = u_text e \<and> u_textFont e' = u_textFont e \<and> triggered e' = triggered e
         \<and> u_textColor e' = u_textColor e \<and> invoked e' = invoked e"
  using assms
  by (auto simp: draw_def Let_def measureText_def split: if_splits option.splits prod.splits)

lemma unselectable_frame:
  assumes "unselectable e = Inr e'"
  shows "u_text e' = u_text e \<and> u_textFont e' = u_textFont e \<and> invoked e' = invoked e"
  using assms
  by (auto simp: unselectable_def css_def trigger_def split: if_splits option.splits sum.splits)

lemma text_fn_frame: "u_textFont (snd (text_fn a e)) = u_textFont e"
  by (cases a) (auto simp: trigger_def call_on_def)

lemma text_fn_Value_invoked: "invoked (snd (text_fn (Value v) e)) = invoked e"
  by (simp add: trigger_def)

lemma textColor_frame:
  "u_textFont (snd (textColor toRGB c s e)) = u_textFont e \<and> u_text (snd (textColor toRGB c s e)) = u_text e"
  by (simp add: textColor_def trigger_def Let_def)

lemma textColor_invoked: "invoked (snd (textColor toRGB c s e)) = invoked e"
  by (simp add: textColor_def trigger_def Let_def)

lemma textFont_invoked: "invoked (snd (textFont arguments e)) = invoked e"
  by (simp add: textFont_def trigger_def Let_def)

lemma textFont_unwritten:
  assumes "k \<notin> set (written_keys arguments)"
  shows "obj_get (u_textFont (snd (textFont arguments e))) k = obj_get (u_textFont e) k"
proof (cases "length arguments = 1")
  case False
  with assms show ?thesis
    by (simp add: textFont_def written_keys_def trigger_def obj_get_put Let_def)
next
  case True
  show ?thesis
  proof (cases "typeof (arg arguments 0) = ''object''")
    case False
    with True show ?thesis by (simp add: textFont_def trigger_def Let_def)
  next
    case obj: True
    with True assms have "k \<notin> fst ` set (properties (arg arguments 0))"
      by (simp add: written_keys_def set_obj_keys)
    then have "map_of (properties (arg arguments 0)) k = None"
      by (simp add: map_of_eq_None_iff)
    with True obj show ?thesis
      by (simp add: textFont_def trigger_def Let_def obj_get_merge_font)
  qed
qed

lemma step_unwritten:
  assumes "step toRGB msr c e = Inr e'" and "\<not> sets_key k c"
  shows "obj_get (u_textFont e') k = obj_get (u_textFont e) k"
proof (cases c)
  case (Text a)
  with assms show ?thesis by (auto simp: text_fn_frame)
next
  case (TextColor color strength)
  with assms show ?thesis by (auto simp: textColor_frame)
next
  case (TextFont arguments)
  with assms show ?thesis by (auto simp: textFont_unwritten)
next
  case Unselectable
  with assms show ?thesis by (auto dest: unselectable_frame)
next
  case (Draw ev)
  with assms show ?thesis
    by (cases "draw msr ev e") (auto dest: draw_frame)
qed

lemma run_unwritten:
  assumes "run toRGB msr cs e = Inr e'" and "\<forall>c \<in> set cs. \<not> sets_key k c"
  shows "obj_get (u_textFont e') k = obj_get (u_textFont e) k"
  using assms
proof (induction cs arbitrary: e)
  case Nil
  then show ?case by simp
next
  case (Cons c cs)
  from Cons.prems(1) obtain e1 where s: "step toRGB msr c e = Inr e1" and r: "run toRGB msr cs e1 = Inr e'"
    by (auto split: sum.splits)
  from Cons.prems(2) have "\<not> sets_key k c" and "\<forall>c \<in> set cs. \<not> sets_key k c" by simp_all
  with s r Cons.IH show ?case by (metis step_unwritten)
qed

lemma step_invoked:
  assumes "step toRGB msr c e = Inr e'" and "\<not> passes_function c"
  shows "invoked e' = invoked e"
proof (cases c)
  case (Text a)
  with assms show ?thesis by (cases a) (auto simp: trigger_def)
next
  case (TextColor color strength)
  with assms show ?thesis by (auto simp: textColor_invoked)
next
  case (TextFont arguments)
  with assms show ?thesis by (auto simp: textFont_invoked)
next
  case Unselectable
  with assms show ?thesis by (auto dest: unselectable_frame)
next
  case (Draw ev)
  with assms show ?thesis
    by (cases "draw msr ev e") (auto dest: draw_frame)
qed

lemma run_invoked:
  assumes "run toRGB msr cs e = Inr e'" and "\<forall>c \<in> set cs. \<not> passes_function c"
  shows "invoked e' = invoked e"
  using assms
proof (induction cs arbitrary: e)
  case Nil
  then show ?case by simp
next
  case (Cons c cs)
  from Cons.prems(1) obtain e1 where s: "step toRGB msr c e = Inr e1" and r: "run toRGB msr cs e1 = Inr e'"
    by (auto split: sum.splits)
  from Cons.prems(2) have "\<not> passes_function c" and "\<forall>c \<in> set cs. \<not> passes_function c" by simp_all
  with s r Cons.IH show ?case by (metis step_invoked)
qed

lemma run_draws_text:
  assumes "run toRGB msr (map Draw evs) e = Inr e'"
  shows "u_text e' = u_text e"
  using assms
proof (induction evs arbitrary: e)
  case Nil
  then show ?case by simp
next
  case (Cons ev evs)
  from Cons.prems obtain e1 ev1 where d: "draw msr ev e = Inr (e1, ev1)"
    and r: "run toRGB msr (map Draw evs) e1 = Inr e'"
    by (auto split: sum.splits)
  from d have "u_text e1 = u_text e" by (simp add: draw_frame)
  with r Cons.IH show ?case by simp
qed

subsection \<open>The canvas branch of the Draw handler\<close>

text \<open>
  C1. For every Draw notification of type "canvas" that carries a context, the handler
  succeeds and the context receives exactly the calls save, fillStyle := the text colour
  (or "rgb(0,0,0)" when the colour is unset or otherwise falsy), font := the composed
  font string, translate(x, y + h), fillText(text, 0, 0), measureText(text), restore, in
  this order and nothing else. The text is painted at the previous origin moved by
  (x, y + h); the drawing state and the stack of saved states are afterwards what they
  were before; the entity's cached width is the measured width of the text in the
  drawing state it was painted in, whatever the cached width was before, and nothing else
  of the entity changes.
\<close>

theorem draw_canvas_sequence:
  assumes "ev_type ev = ''canvas''" and "ev_ctx ev = Some c"
  shows "let fill = (if truthy (u_textColor e) then u_textColor e else JStr ''rgb(0,0,0)'');
             d = (cur c)\<lparr>fillStyle := fill, font := compose_font e,
                  origin := (fst (origin (cur c)) + ent_x e, snd (origin (cur c)) + (ent_y e + ent_h e))\<rparr>;
             c' = c\<lparr>painted := painted c @ [\<lparr>p_text = u_text e, p_at = origin d, p_state = d\<rparr>],
                    calls := calls c @
                      [Save, Set_fillStyle fill, Set_font (compose_font e),
                       Translate (ent_x e) (ent_y e + ent_h e), FillText (u_text e) 0 0,
                       MeasureText (u_text e), Restore]\<rparr>
         in draw msr ev e = Inr (e\<lparr>u_w := msr d (u_text e)\<rparr>, ev\<lparr>ev_ctx := Some c'\<rparr>)
          \<and> (\<forall>w0. map_sum id (\<lambda>r. u_w (fst r)) (draw msr ev (e\<lparr>u_w := w0\<rparr>)) = Inr (msr d (u_text e)))"
proof -
  have f: "compose_font (e\<lparr>u_w := w0\<rparr>) = compose_font e" for w0
    by (simp add: compose_font_def)
  from assms show ?thesis
    by (simp add: draw_def Let_def save_def set_fillStyle_def set_font_def translate_def fillText_def
        measureText_def restore_def js_or_def f)
qed

text \<open>At x = 10, y = 20, h = 5 and text "hi" on a blank canvas, with no colour set and a stale
  cached width of 99: the text lands at (10, 25) and the cached width is 12.\<close>

theorem draw_canvas_sequence_witness:
  "ev_type canvas_draw = ''canvas'' \<and> ev_ctx canvas_draw = Some blank_canvas
   \<and> map_sum id (\<lambda>r. (u_w (fst r),
          map_option (\<lambda>c. (map p_at (painted c), calls c, cur c = cur blank_canvas, stack c)) (ev_ctx (snd r))))
        (draw fixed_width canvas_draw (snd (text_fn (Value (JStr ''hi'')) (text_entity\<lparr>u_w := 99\<rparr>))))
      = Inr (12, Some ([(10, 25)],
               [Save, Set_fillStyle (JStr ''rgb(0,0,0)''), Set_font ''  10px sans-serif'',
                Translate 10 25, FillText (JStr ''hi'') 0 0, MeasureText (JStr ''hi''), Restore],
               True, []))"
  using draw_canvas_sequence [of canvas_draw blank_canvas
      "snd (text_fn (Value (JStr ''hi'')) (text_entity\<lparr>u_w := 99\<rparr>))" fixed_width]
  by (simp add: example_defs Let_def compose_font_def js_or_def defaultSize_def defaultFamily_def)

subsection \<open>The composed font string\<close>

text \<open>
  C2. In every state the font string of the Draw handler is the concatenation type + " " +
  weight + " " + (size || "10px") + " " + (family || "sans-serif"); when the four fields
  hold strings, as the font descriptor of the spec does, that is the literal concatenation
  with "10px" for an empty size and "sans-serif" for an empty family, and an empty field
  leaves its separating space in place.
\<close>

theorem compose_font_literal:
  "compose_font e =
     to_string (obj_get (u_textFont e) ''type'') @ '' '' @
     to_string (obj_get (u_textFont e) ''weight'') @ '' '' @
     to_string (if truthy (obj_get (u_textFont e) ''size'') then obj_get (u_textFont e) ''size''
                else JStr ''10px'') @ '' '' @
     to_string (if truthy (obj_get (u_textFont e) ''family'') then obj_get (u_textFont e) ''family''
                else JStr ''sans-serif'')
   \<and> (obj_get (u_textFont e) ''type'' = JStr t \<and> obj_get (u_textFont e) ''weight'' = JStr w
        \<and> obj_get (u_textFont e) ''size'' = JStr s \<and> obj_get (u_textFont e) ''family'' = JStr f
      \<longrightarrow> compose_font e =
            t @ '' '' @ w @ '' '' @ (if s = [] then ''10px'' else s) @ '' '' @
            (if f = [] then ''sans-serif'' else f))"
  by (simp add: compose_font_def js_or_def defaultSize_def defaultFamily_def)

text \<open>For the descriptor {type: "", weight: "bold", size: "", family: ""}, reached by
  \<^verbatim>\<open>textFont("weight", "bold")\<close> on a new Text entity: " bold 10px sans-serif".\<close>

theorem compose_font_literal_witness:
  "obj_get (u_textFont (snd (textFont [JStr ''weight'', JStr ''bold''] (attach_Text fresh_entity)))) ''type'' = JStr ''''
   \<and> obj_get (u_textFont (snd (textFont [JStr ''weight'', JStr ''bold''] (attach_Text fresh_entity)))) ''weight'' = JStr ''bold''
   \<and> obj_get (u_textFont (snd (textFont [JStr ''weight'', JStr ''bold''] (attach_Text fresh_entity)))) ''size'' = JStr ''''
   \<and> obj_get (u_textFont (snd (textFont [JStr ''weight'', JStr ''bold''] (attach_Text fresh_entity)))) ''family'' = JStr ''''
   \<and> compose_font (snd (textFont [JStr ''weight'', JStr ''bold''] (attach_Text fresh_entity)))
       = '' bold 10px sans-serif''"
proof -
  have d: "u_textFont (snd (textFont [JStr ''weight'', JStr ''bold''] (attach_Text fresh_entity))) =
      [(''type'', JStr ''''), (''weight'', JStr ''bold''), (''size'', JStr ''''), (''family'', JStr '''')]"
    by (simp add: textFont_def arg_def example_defs)
  have g: "obj_get (u_textFont (snd (textFont [JStr ''weight'', JStr ''bold''] (attach_Text fresh_entity)))) ''type'' = JStr ''''
   \<and> obj_get (u_textFont (snd (textFont [JStr ''weight'', JStr ''bold''] (attach_Text fresh_entity)))) ''weight'' = JStr ''bold''
   \<and> obj_get (u_textFont (snd (textFont [JStr ''weight'', JStr ''bold''] (attach_Text fresh_entity)))) ''size'' = JStr ''''
   \<and> obj_get (u_textFont (snd (textFont [JStr ''weight'', JStr ''bold''] (attach_Text fresh_entity)))) ''family'' = JStr ''''"
    unfolding d by (simp add: obj_get_def)
  from compose_font_literal [of "snd (textFont [JStr ''weight'', JStr ''bold''] (attach_Text fresh_entity))"
      "''''" "''bold''" "''''" "''''"] g
  show ?thesis by simp
qed

subsection \<open>Change notifications\<close>

text \<open>
  C3. Each mutating call emits exactly one notification, "Change": \<^verbatim>\<open>text\<close> with an argument
  that is neither \<^verbatim>\<open>undefined\<close> nor \<^verbatim>\<open>null\<close> (a value or a generator), \<^verbatim>\<open>textColor\<close>,
  \<^verbatim>\<open>textFont\<close> with a key and a value, \<^verbatim>\<open>textFont\<close> with one object, and \<^verbatim>\<open>unselectable\<close>
  on an entity that has the DOM component (and so an element). The getter forms, \<^verbatim>\<open>text()\<close>
  and \<^verbatim>\<open>textFont\<close> with one string, return the stored value and leave the entity as it
  is, so they emit nothing.
\<close>

theorem mutators_emit_one_Change:
  "(a \<noteq> Value JUndefined \<and> a \<noteq> Value JNull \<longrightarrow>
      triggered (snd (text_fn a e)) = triggered e @ [''Change''])
   \<and> triggered (snd (textColor toRGB color strength e)) = triggered e @ [''Change'']
   \<and> triggered (snd (textFont [key, val] e)) = triggered e @ [''Change'']
   \<and> triggered (snd (textFont [JObj ps] e)) = triggered e @ [''Change'']
   \<and> (has ''DOM'' e \<and> u_element e = Some el \<longrightarrow>
        (\<exists>e'. unselectable e = Inr e' \<and> triggered e' = triggered e @ [''Change'']))
   \<and> text_fn (Value JUndefined) e = (Returned (u_text e), e)
   \<and> textFont [JStr k] e = (Returned (obj_get (u_textFont e) k), e)"
proof -
  have t: "a \<noteq> Value JUndefined \<and> a \<noteq> Value JNull \<longrightarrow>
      triggered (snd (text_fn a e)) = triggered e @ [''Change'']"
  proof (cases a)
    case (Value v)
    then show ?thesis by (cases v) (simp_all add: trigger_def)
  next
    case (Generator f)
    then show ?thesis by (simp add: trigger_def call_on_def)
  qed
  have c: "triggered (snd (textColor toRGB color strength e)) = triggered e @ [''Change'']"
    by (simp add: textColor_def trigger_def Let_def)
  have f2: "triggered (snd (textFont [key, val] e)) = triggered e @ [''Change'']"
    by (simp add: textFont_def trigger_def Let_def)
  have f1: "triggered (snd (textFont [JObj ps] e)) = triggered e @ [''Change'']"
    by (simp add: textFont_def arg_def trigger_def Let_def)
  have u: "has ''DOM'' e \<and> u_element e = Some el \<longrightarrow>
        (\<exists>e'. unselectable e = Inr e' \<and> triggered e' = triggered e @ [''Change''])"
    by (simp add: unselectable_def css_def trigger_def)
  have g1: "text_fn (Value JUndefined) e = (Returned (u_text e), e)" by simp
  have g2: "textFont [JStr k] e = (Returned (obj_get (u_textFont e) k), e)"
    by (simp add: textFont_def arg_def)
  from t c f2 f1 u g1 g2 show ?thesis by blast
qed

theorem mutators_emit_one_Change_witness:
  "Value (JStr ''hi'') \<noteq> Value JUndefined \<and> Value (JStr ''hi'') \<noteq> Value JNull
   \<and> triggered (snd (text_fn (Value (JStr ''hi'')) dom_entity)) = [''Change'']
   \<and> triggered (snd (textColor hex_toRGB (JStr ''#FF0000'') JUndefined dom_entity)) = [''Change'']
   \<and> triggered (snd (textFont [JStr ''size'', JStr ''20px''] dom_entity)) = [''Change'']
   \<and> triggered (snd (textFont [JObj [(''type'', JStr ''italic'')]] dom_entity)) = [''Change'']
   \<and> has ''DOM'' dom_entity \<and> u_element dom_entity = Some \<lparr>style = [], innerHTML = JStr ''''\<rparr>
   \<and> map_sum id triggered (unselectable dom_entity) = Inr [''Change'']
   \<and> text_fn (Value JUndefined) dom_entity = (Returned (JStr ''''), dom_entity)
   \<and> textFont [JStr ''size''] dom_entity = (Returned (JStr ''''), dom_entity)"
  using mutators_emit_one_Change [of "Value (JStr ''hi'')" dom_entity hex_toRGB "JStr ''#FF0000''" JUndefined
      "JStr ''size''" "JStr ''20px''" "[(''type'', JStr ''italic'')]" "\<lparr>style = [], innerHTML = JStr ''''\<rparr>" "''size''"]
  by (auto simp: example_defs)

subsection \<open>The map form of textFont merges\<close>

text \<open>
  C4. \<^verbatim>\<open>textFont\<close> with one object changes the font descriptor and the emitted
  notifications only; afterwards every property of the object holds the object's value
  and every other property of the descriptor holds what it held before. In particular
  \<^verbatim>\<open>textFont({type: "italic"})\<close> followed by \<^verbatim>\<open>textFont({family: "Arial"})\<close> leaves weight
  and size as they were, with type "italic" and family "Arial".
\<close>

theorem textFont_object_merges:
  "snd (textFont [JObj ps] e) =
     e\<lparr>u_textFont := merge_font ps (u_textFont e), triggered := triggered e @ [''Change'']\<rparr>
   \<and> obj_get (u_textFont (snd (textFont [JObj ps] e))) k =
       (case map_of ps k of None \<Rightarrow> obj_get (u_textFont e) k | Some v \<Rightarrow> v)
   \<and> (let e2 = snd (textFont [JObj [(''family'', JStr ''Arial'')]]
                  (snd (textFont [JObj [(''type'', JStr ''italic'')]] e)))
      in obj_get (u_textFont e2) ''weight'' = obj_get (u_textFont e) ''weight''
       \<and> obj_get (u_textFont e2) ''size'' = obj_get (u_textFont e) ''size''
       \<and> obj_get (u_textFont e2) ''type'' = JStr ''italic''
       \<and> obj_get (u_textFont e2) ''family'' = JStr ''Arial'')"
  by (simp add: textFont_def arg_def trigger_def obj_get_merge_font Let_def)

subsection \<open>The DOM branch of the Draw handler\<close>

text \<open>
  C5. For every Draw notification of type "DOM" on an entity with an element, the handler
  succeeds; of the entity only the element changes, and of the element only its style
  properties color and font and its content: color is the stored text colour, font the
  composed font string, and the content is the stored text as it is, with no escaping.
\<close>

theorem draw_DOM_sets_element:
  assumes "ev_type ev = ''DOM''" and "u_element e = Some el"
  shows "\<exists>st. draw msr ev e = Inr (e\<lparr>u_element := Some (el\<lparr>style := st, innerHTML := u_text e\<rparr>)\<rparr>, ev)
           \<and> obj_get st ''color'' = u_textColor e
           \<and> obj_get st ''font'' = JStr (compose_font e)
           \<and> (\<forall>k. k \<noteq> ''color'' \<and> k \<noteq> ''font'' \<longrightarrow> obj_get st k = obj_get (style el) k)"
  using assms
  by (intro exI [of _ "obj_put ''font'' (JStr (compose_font e)) (obj_put ''color'' (u_textColor e) (style el))"])
     (simp add: draw_def Let_def obj_get_put)

text \<open>With the text "<b>x</b>" the content of the element is that very string.\<close>

theorem draw_DOM_sets_element_witness:
  "ev_type dom_draw = ''DOM''
   \<and> u_element (snd (text_fn (Value (JStr ''<b>x</b>'')) dom_entity)) = Some \<lparr>style = [], innerHTML = JStr ''''\<rparr>
   \<and> map_sum id (\<lambda>r. map_option (\<lambda>el. (innerHTML el, obj_get (style el) ''color'', obj_get (style el) ''font''))
                         (u_element (fst r)))
        (draw fixed_width dom_draw (snd (text_fn (Value (JStr ''<b>x</b>'')) dom_entity)))
      = Inr (Some (JStr ''<b>x</b>'', JUndefined, JStr ''  10px sans-serif''))"
proof -
  have t: "ev_type dom_draw = ''DOM''" by (simp add: dom_draw_def)
  have el: "u_element (snd (text_fn (Value (JStr ''<b>x</b>'')) dom_entity)) = Some \<lparr>style = [], innerHTML = JStr ''''\<rparr>"
    by (simp add: example_defs)
  have f: "compose_font (snd (text_fn (Value (JStr ''<b>x</b>'')) dom_entity)) = ''  10px sans-serif''"
    by (simp add: example_defs compose_font_def js_or_def defaultSize_def defaultFamily_def)
  have c: "u_textColor (snd (text_fn (Value (JStr ''<b>x</b>'')) dom_entity)) = JUndefined"
    and x: "u_text (snd (text_fn (Value (JStr ''<b>x</b>'')) dom_entity)) = JStr ''<b>x</b>''"
    by (simp_all add: example_defs)
  from draw_DOM_sets_element [OF t el, of fixed_width] t el show ?thesis
    by (elim exE conjE) (simp add: f c x del: text_fn.simps)
qed

subsection \<open>Text generators\<close>

text \<open>
  C6. When the generator \<open>f\<close> computes the string \<open>r\<close> from the entity, \<^verbatim>\<open>text(f)\<close> invokes
  \<open>f\<close> exactly once, on the entity as it is at the call: the log of invocations grows by
  the one entry \<open>r\<close>. It stores \<open>r\<close> and emits "Change", and it changes nothing else, so the
  entity afterwards is the one \<^verbatim>\<open>text(r)\<close> leaves but for the logged invocation: nothing
  of \<open>f\<close> is kept. The getter then returns \<open>r\<close>. After the entity has moved and any number
  of Draw notifications have been handled the log still has that one new entry and the
  getter still returns \<open>r\<close>; indeed no run of calls and notifications that passes no
  function adds an invocation.
\<close>

theorem text_generator_evaluated_once:
  assumes "f e = JStr r"
  shows "text_fn (Generator f) e =
           (This, e\<lparr>invoked := invoked e @ [JStr r], u_text := JStr r,
                    triggered := triggered e @ [''Change'']\<rparr>)
       \<and> snd (text_fn (Generator f) e) =
           (snd (text_fn (Value (JStr r)) e))\<lparr>invoked := invoked e @ [JStr r]\<rparr>
       \<and> text_fn (Value JUndefined) (snd (text_fn (Generator f) e)) =
           (Returned (JStr r), snd (text_fn (Generator f) e))
       \<and> (\<forall>x' y' evs e'.
            run toRGB msr (map Draw evs) ((snd (text_fn (Generator f) e))\<lparr>ent_x := x', ent_y := y'\<rparr>) = Inr e'
            \<longrightarrow> invoked e' = invoked e @ [JStr r]
              \<and> text_fn (Value JUndefined) e' = (Returned (JStr r), e'))
       \<and> (\<forall>cs e'.
            run toRGB msr cs (snd (text_fn (Generator f) e)) = Inr e' \<and> (\<forall>c \<in> set cs. \<not> passes_function c)
            \<longrightarrow> invoked e' = invoked e @ [JStr r])"
proof -
  have post: "text_fn (Generator f) e =
      (This, e\<lparr>invoked := invoked e @ [JStr r], u_text := JStr r, triggered := triggered e @ [''Change'']\<rparr>)"
    using assms by (simp add: call_on_def trigger_def)
  have lit: "snd (text_fn (Generator f) e) =
      (snd (text_fn (Value (JStr r)) e))\<lparr>invoked := invoked e @ [JStr r]\<rparr>"
    using assms by (simp add: call_on_def trigger_def)
  have get: "text_fn (Value JUndefined) (snd (text_fn (Generator f) e)) =
      (Returned (JStr r), snd (text_fn (Generator f) e))"
    using assms by (simp add: call_on_def trigger_def)
  have draws: "invoked e' = invoked e @ [JStr r] \<and> text_fn (Value JUndefined) e' = (Returned (JStr r), e')"
    if d: "run toRGB msr (map Draw evs) ((snd (text_fn (Generator f) e))\<lparr>ent_x := x', ent_y := y'\<rparr>) = Inr e'"
    for x' y' evs e'
  proof -
    have "\<forall>c \<in> set (map Draw evs). \<not> passes_function c" by auto
    with d have "invoked e' = invoked ((snd (text_fn (Generator f) e))\<lparr>ent_x := x', ent_y := y'\<rparr>)"
      by (rule run_invoked)
    moreover from d have "u_text e' = u_text ((snd (text_fn (Generator f) e))\<lparr>ent_x := x', ent_y := y'\<rparr>)"
      by (rule run_draws_text)
    ultimately show ?thesis using assms by (simp add: call_on_def trigger_def)
  qed
  have later: "invoked e' = invoked e @ [JStr r]"
    if "run toRGB msr cs (snd (text_fn (Generator f) e)) = Inr e'" and "\<forall>c \<in> set cs. \<not> passes_function c"
    for cs e'
    using run_invoked [OF that] assms by (simp add: call_on_def trigger_def)
  from post lit get draws later show ?thesis by blast
qed

text \<open>The generator of the source's example on the entity at x = 10: one invocation, logged
  with its result; the text read back after the entity has moved to x = 50 and two Draw
  notifications is still "My position is 10", and the log still has the one entry.\<close>

theorem text_generator_evaluated_once_witness:
  "position_text text_entity = JStr ''My position is 10''
   \<and> invoked text_entity = []
   \<and> invoked (snd (text_fn (Generator position_text) text_entity)) = [JStr ''My position is 10'']
   \<and> map_sum id (\<lambda>e'. (invoked e', fst (text_fn (Value JUndefined) e')))
        (run hex_toRGB fixed_width (map Draw [canvas_draw, canvas_draw])
           ((snd (text_fn (Generator position_text) text_entity))\<lparr>ent_x := 50, ent_y := 0\<rparr>))
      = Inr ([JStr ''My position is 10''], Returned (JStr ''My position is 10''))"
proof -
  have h: "position_text text_entity = JStr ''My position is 10''"
    by (simp add: position_text_def example_defs num_to_string_def nat_to_string.simps digit_char_def)
  have i: "invoked text_entity = []"
    by (simp add: example_defs)
  obtain e' where d: "run hex_toRGB fixed_width (map Draw [canvas_draw, canvas_draw])
           ((snd (text_fn (Generator position_text) text_entity))\<lparr>ent_x := 50, ent_y := 0\<rparr>) = Inr e'"
    by (simp add: draw_def canvas_draw_def Let_def measureText_def call_on_def split: prod.splits)
  note g = text_generator_evaluated_once [of position_text text_entity "''My position is 10''" hex_toRGB fixed_width, OF h]
  from g d have r: "invoked e' = invoked text_entity @ [JStr ''My position is 10'']
      \<and> text_fn (Value JUndefined) e' = (Returned (JStr ''My position is 10''), e')"
    by blast
  from g have q: "invoked (snd (text_fn (Generator position_text) text_entity)) = [JStr ''My position is 10'']"
    by (simp add: i)
  have m: "map_sum id (\<lambda>e'. (invoked e', fst (text_fn (Value JUndefined) e')))
        (run hex_toRGB fixed_width (map Draw [canvas_draw, canvas_draw])
           ((snd (text_fn (Generator position_text) text_entity))\<lparr>ent_x := 50, ent_y := 0\<rparr>))
      = Inr ([JStr ''My position is 10''], Returned (JStr ''My position is 10''))"
    unfolding d using r i by simp
  from h i q m show ?thesis by (intro conjI)
qed

subsection \<open>The getter reads back what the setter stored\<close>

text \<open>
  C7. For every string \<open>s\<close>, on every entity, \<^verbatim>\<open>text(s)\<close> followed by \<^verbatim>\<open>text()\<close> returns
  exactly \<open>s\<close> (the empty string included), and the getter leaves the entity as the setter
  left it.
\<close>

theorem text_set_then_get:
  "text_fn (Value JUndefined) (snd (text_fn (Value (JStr s)) e)) =
     (Returned (JStr s), snd (text_fn (Value (JStr s)) e))"
  by (simp add: trigger_def)

subsection \<open>unselectable without the DOM component\<close>

text \<open>
  C8. On an entity without the DOM component \<^verbatim>\<open>unselectable\<close> returns normally and the
  entity is exactly what it was: no field changes and no notification is emitted.
\<close>

theorem unselectable_without_DOM:
  assumes "\<not> has ''DOM'' e"
  shows "unselectable e = Inr e"
  using assms by (simp add: unselectable_def)

theorem unselectable_without_DOM_witness:
  "\<not> has ''DOM'' text_entity \<and> unselectable text_entity = Inr text_entity"
proof -
  have h: "\<not> has ''DOM'' text_entity" by (simp add: example_defs)
  from unselectable_without_DOM [OF h] h show ?thesis by simp
qed

subsection \<open>The defaults are never stored\<close>

text \<open>
  C9. A newly attached Text component stores the empty string for size and for family,
  and composes its font with "10px" and "sans-serif" in their place. After any run of
  method calls and Draw notifications that ends without error, size is still the empty
  string unless some \<^verbatim>\<open>textFont\<close> call of the run named it, and likewise family: no
  operation stores a default, the Draw handler only substitutes it in the string it
  composes.
\<close>

theorem defaults_only_at_draw:
  "obj_get (u_textFont (attach_Text e0)) ''size'' = JStr ''''
   \<and> obj_get (u_textFont (attach_Text e0)) ''family'' = JStr ''''
   \<and> compose_font (attach_Text e0) = ''  10px sans-serif''
   \<and> (\<forall>cs e'. run toRGB msr cs (attach_Text e0) = Inr e' \<longrightarrow>
        ((\<forall>c \<in> set cs. \<not> sets_key ''size'' c) \<longrightarrow> obj_get (u_textFont e') ''size'' = JStr '''')
      \<and> ((\<forall>c \<in> set cs. \<not> sets_key ''family'' c) \<longrightarrow> obj_get (u_textFont e') ''family'' = JStr ''''))"
proof -
  have i: "u_textFont (attach_Text e0) =
      [(''type'', JStr ''''), (''weight'', JStr ''''), (''size'', JStr ''''), (''family'', JStr '''')]"
    by (simp add: attach_Text_def init_def bind_def requires_def)
  have s: "obj_get (u_textFont (attach_Text e0)) ''size'' = JStr ''''"
    and f: "obj_get (u_textFont (attach_Text e0)) ''family'' = JStr ''''"
    by (simp_all add: i obj_get_def)
  have c: "compose_font (attach_Text e0) = ''  10px sans-serif''"
    by (simp add: compose_font_def i obj_get_def js_or_def defaultSize_def defaultFamily_def)
  have r: "obj_get (u_textFont e') k = obj_get (u_textFont (attach_Text e0)) k"
    if "run toRGB msr cs (attach_Text e0) = Inr e'" and "\<forall>c \<in> set cs. \<not> sets_key k c" for cs e' k
    using that by (rule run_unwritten)
  from s f c r show ?thesis by metis
qed

text \<open>A run with every kind of call, none naming size or family: both are still empty
  afterwards.\<close>

theorem defaults_only_at_draw_witness:
  "list_all (\<lambda>c. \<not> sets_key ''size'' c)
     [Text (Value (JStr ''hi'')), TextFont [JStr ''weight'', JStr ''bold''],
      TextColor (JStr ''#FF0000'') JUndefined, Unselectable, Draw canvas_draw]
   \<and> list_all (\<lambda>c. \<not> sets_key ''family'' c)
     [Text (Value (JStr ''hi'')), TextFont [JStr ''weight'', JStr ''bold''],
      TextColor (JStr ''#FF0000'') JUndefined, Unselectable, Draw canvas_draw]
   \<and> map_sum id (\<lambda>e'. (obj_get (u_textFont e') ''size'', obj_get (u_textFont e') ''family''))
        (run hex_toRGB fixed_width
           [Text (Value (JStr ''hi'')), TextFont [JStr ''weight'', JStr ''bold''],
            TextColor (JStr ''#FF0000'') JUndefined, Unselectable, Draw canvas_draw]
           (attach_Text fresh_entity))
      = Inr (JStr '''', JStr '''')"
proof -
  let ?cs = "[Text (Value (JStr ''hi'')), TextFont [JStr ''weight'', JStr ''bold''],
      TextColor (JStr ''#FF0000'') JUndefined, Unselectable, Draw canvas_draw]"
  have s: "list_all (\<lambda>c. \<not> sets_key ''size'' c) ?cs" and f: "list_all (\<lambda>c. \<not> sets_key ''family'' c) ?cs"
    by (simp_all add: written_keys_def arg_def)
  obtain e' where r: "run hex_toRGB fixed_width ?cs (attach_Text fresh_entity) = Inr e'"
    by (simp add: example_defs textFont_def textColor_def unselectable_def draw_def arg_def Let_def
        measureText_def split: prod.splits)
  from defaults_only_at_draw [of fresh_entity hex_toRGB fixed_width] r s f
  have "obj_get (u_textFont e') ''size'' = JStr '''' \<and> obj_get (u_textFont e') ''family'' = JStr ''''"
    unfolding list_all_iff by blast
  then have "map_sum id (\<lambda>e'. (obj_get (u_textFont e') ''size'', obj_get (u_textFont e') ''family''))
        (run hex_toRGB fixed_width ?cs (attach_Text fresh_entity)) = Inr (JStr '''', JStr '''')"
    unfolding r by simp
  with s f show ?thesis by (intro conjI)
qed

subsection \<open>textFont with one argument that is neither a string nor an object\<close>

text \<open>
  C10. \<^verbatim>\<open>textFont\<close> with a single argument whose type is neither "string" nor "object" (a
  number, a boolean, \<^verbatim>\<open>undefined\<close>) returns \<^verbatim>\<open>this\<close>, changes no field of the entity,
  the font descriptor included, and emits one "Change".
\<close>

theorem textFont_other_shape:
  assumes "typeof v \<noteq> ''string''" and "typeof v \<noteq> ''object''"
  shows "textFont [v] e = (This, e\<lparr>triggered := triggered e @ [''Change'']\<rparr>)"
  using assms by (simp add: textFont_def arg_def trigger_def)

theorem textFont_other_shape_witness:
  "typeof (JNum 5) \<noteq> ''string'' \<and> typeof (JNum 5) \<noteq> ''object''
   \<and> u_textFont (snd (textFont [JNum 5] text_entity)) = u_textFont text_entity
   \<and> triggered (snd (textFont [JNum 5] text_entity)) = triggered text_entity @ [''Change'']
   \<and> fst (textFont [JNum 5] text_entity) = This"
  using textFont_other_shape [of "JNum 5" text_entity] by simp

end
